theory Spec2Isabelle
  imports Complex_Main "HOL-Library.Char_ord" "HOL-Library.List_Lexorder" "HOL-Library.Multiset"
begin

section \<open>Supply-chain contract: data model\<close>

text \<open>
  The contract (\<^verbatim>\<open>chaincode/src/contracts/supply-chain-contract.ts\<close>) stores JSON
  documents in a key/value ledger. Strings are byte strings (UTF-8), which is what the
  ledger compares keys by. A scalar field that may be \<^verbatim>\<open>null\<close> or
  \<^verbatim>\<open>undefined\<close> in the JSON payload is an \<open>option\<close>; \<^verbatim>\<open>requireField\<close> and the
  truthiness tests of the code treat both alike. Numbers are the rationals: every finite
  double is one, and comparison is exact on them.
\<close>

text \<open>Modelled from the spec: the classes \<^verbatim>\<open>ProductLocationEntry\<close> and
  \<^verbatim>\<open>ProductLocationData\<close> (\<^verbatim>\<open>models/product-location-entry.ts\<close> and
  \<^verbatim>\<open>models/product-location-data.ts\<close> are not among the sources). An entry is
  \<open>{location, arrivalDate}\<close>; the location data is the current entry and the ordered
  sequence of the previous ones, oldest first.\<close>

record location_entry =
  location :: "string option"
  arrivalDate :: "string option"

record location_data =
  current :: location_entry
  previous :: "location_entry list"

text \<open>The class \<^verbatim>\<open>Product\<close> (\<^verbatim>\<open>models/product.ts\<close>). The fields that hold an object or
  an array are present, as the class declares them; \<^verbatim>\<open>misc\<close> is an opaque text.\<close>

record product =
  id_P :: "string option"
  componentProductIds :: "string list"
  barcode :: "string option"
  name :: "string option"
  placeOfOrigin :: "string option"
  productionDate :: "string option"
  expirationDate :: "string option"
  unitQuantity :: "rat option"
  unitQuantityType :: "string option"
  batchQuantity :: "rat option"
  unitPrice :: "string option"
  category :: "string option"
  variety :: "string option"
  misc :: "string option"
  locationData :: location_data

record quality_record =
  productId_Q :: "string option"
  inspector :: "string option"
  score :: "rat option"
  notes_Q :: "string option"
  timestamp_Q :: "string option"
  location_Q :: "string option"
  testResults :: "string option"
  certificationType :: "string option"
  inspectionStandard :: "string option"
  batchId :: "string option"

record notification =
  id_N :: string
  productId_N :: string
  type_N :: string
  message :: string
  timestamp_N :: string
  location_N :: "string option"
  severity :: string
  acknowledged :: bool

text \<open>
  A parsed JSON document. The casts \<^verbatim>\<open>JSON.parse(..) as Product\<close> of the code are
  unchecked, so every reader sees whatever document is stored and finds the fields its
  own class does not have \<^verbatim>\<open>undefined\<close>.
\<close>

datatype document =
    ProductDoc product
  | QualityDoc quality_record
  | NotificationDoc notification

text \<open>
  The bytes of a buffer: the JSON text of a document, or bytes that \<^verbatim>\<open>JSON.parse\<close>
  rejects. \<^verbatim>\<open>JSON.stringify\<close> and \<^verbatim>\<open>JSON.parse\<close> are the runtime's; a JSON text is
  identified with the document it denotes.
\<close>

datatype bytes = Json document | Garbage string

text \<open>The code throws \<^verbatim>\<open>Error\<close> with a message; the constructors name the kind of the
  error and carry the message where the code composes one. \<open>TypeError\<close>, \<open>SyntaxError\<close>
  and \<open>RangeError\<close> are the runtime's own exceptions, \<open>StorageError\<close> a failure of the
  ledger accessor.\<close>

datatype error =
    AlreadyExists string
  | NotFound string
  | ValidationError string
  | SyntaxError
  | TypeError
  | RangeError
  | StorageError

definition JSON_parse :: "bytes \<Rightarrow> error + document" where
  "JSON_parse b = (case b of Json d \<Rightarrow> Inr d | Garbage _ \<Rightarrow> Inl SyntaxError)"

definition JSON_stringify :: "document \<Rightarrow> bytes" where
  "JSON_stringify d = Json d"

subsection \<open>Field access on a document\<close>

definition doc_id :: "document \<Rightarrow> string option" where
  "doc_id d = (case d of ProductDoc p \<Rightarrow> id_P p
                | QualityDoc _ \<Rightarrow> None
                | NotificationDoc n \<Rightarrow> Some (id_N n))"

definition doc_locationData :: "document \<Rightarrow> location_data option" where
  "doc_locationData d = (case d of ProductDoc p \<Rightarrow> Some (locationData p) | _ \<Rightarrow> None)"

definition doc_category :: "document \<Rightarrow> string option" where
  "doc_category d = (case d of ProductDoc p \<Rightarrow> category p | _ \<Rightarrow> None)"

definition doc_name :: "document \<Rightarrow> string option" where
  "doc_name d = (case d of ProductDoc p \<Rightarrow> name p | _ \<Rightarrow> None)"

definition doc_placeOfOrigin :: "document \<Rightarrow> string option" where
  "doc_placeOfOrigin d = (case d of ProductDoc p \<Rightarrow> placeOfOrigin p | _ \<Rightarrow> None)"

definition doc_location :: "document \<Rightarrow> string option" where
  "doc_location d = (case d of QualityDoc q \<Rightarrow> location_Q q | _ \<Rightarrow> None)"

definition doc_productionDate :: "document \<Rightarrow> string option" where
  "doc_productionDate d = (case d of ProductDoc p \<Rightarrow> productionDate p | _ \<Rightarrow> None)"

definition doc_inspector :: "document \<Rightarrow> string option" where
  "doc_inspector d = (case d of QualityDoc q \<Rightarrow> inspector q | _ \<Rightarrow> None)"

definition doc_score :: "document \<Rightarrow> rat option" where
  "doc_score d = (case d of QualityDoc q \<Rightarrow> score q | _ \<Rightarrow> None)"


section \<open>Runtime functions the contract calls\<close>

subsection \<open>Strings\<close>

text \<open>
  \<^verbatim>\<open>String.prototype.trim\<close> removes white space and line terminators at both ends.
  On UTF-8 bytes these are the ASCII controls 9 to 13, the space, and the encodings of
  U+00A0, U+1680, U+2000 to U+200A, U+2028, U+2029, U+202F, U+205F, U+3000 and U+FEFF.
\<close>

definition white_space_seqs :: "string list" where
  "white_space_seqs =
     map (\<lambda>c. [c]) [CHR 0x09, CHR 0x0A, CHR 0x0B, CHR 0x0C, CHR 0x0D, CHR 0x20]
     @ ([CHR 0xC2, CHR 0xA0] # [CHR 0xE1, CHR 0x9A, CHR 0x80] # [])
     @ map (\<lambda>c. [CHR 0xE2, CHR 0x80, c])
         [CHR 0x80, CHR 0x81, CHR 0x82, CHR 0x83, CHR 0x84, CHR 0x85, CHR 0x86, CHR 0x87,
          CHR 0x88, CHR 0x89, CHR 0x8A, CHR 0xA8, CHR 0xA9, CHR 0xAF]
     @ ([CHR 0xE2, CHR 0x81, CHR 0x9F] # [CHR 0xE3, CHR 0x80, CHR 0x80]
        # [CHR 0xEF, CHR 0xBB, CHR 0xBF] # [])"

definition is_prefix :: "string \<Rightarrow> string \<Rightarrow> bool" where
  "is_prefix w s = (take (length w) s = w)"

fun trim_start :: "string \<Rightarrow> string" where
  "trim_start [] = []"
| "trim_start (c # cs) =
     (if \<exists>w \<in> set white_space_seqs. is_prefix w (c # cs)
      then (if c \<in> {CHR 0x09, CHR 0x0A, CHR 0x0B, CHR 0x0C, CHR 0x0D, CHR 0x20}
            then trim_start cs
            else if c = CHR 0xC2 then trim_start (drop 1 cs)
            else trim_start (drop 2 cs))
      else c # cs)"

fun trim_end_rev :: "string \<Rightarrow> string" where
  "trim_end_rev [] = []"
| "trim_end_rev (c # cs) =
     (if \<exists>w \<in> set white_space_seqs. is_prefix (rev w) (c # cs)
      then (if c \<in> {CHR 0x09, CHR 0x0A, CHR 0x0B, CHR 0x0C, CHR 0x0D, CHR 0x20}
            then trim_end_rev cs
            else if take 1 cs = [CHR 0xC2] then trim_end_rev (drop 1 cs)
            else trim_end_rev (drop 2 cs))
      else c # cs)"

definition trim :: "string \<Rightarrow> string" where
  "trim s = rev (trim_end_rev (rev (trim_start s)))"

text \<open>\<^verbatim>\<open>s.length\<close> counts UTF-16 code units: one for each character of up to three
  bytes, two for a character of four bytes.\<close>

definition js_length :: "string \<Rightarrow> nat" where
  "js_length s =
     length (filter (\<lambda>c. of_char c < (0x80::nat) \<or> (0xC0::nat) \<le> of_char c) s)
     + length (filter (\<lambda>c. (0xF0::nat) \<le> of_char c) s)"

definition includes_char :: "string \<Rightarrow> char \<Rightarrow> bool" where
  "includes_char s c = (c \<in> set s)"

subsection \<open>Numbers to text\<close>

definition digit_char :: "nat \<Rightarrow> char" where
  "digit_char d = char_of (of_char (CHR ''0'') + d)"

function digits_acc :: "int \<Rightarrow> string \<Rightarrow> string" where
  "digits_acc n acc =
     (if n < 10 then digit_char (nat n) # acc
      else digits_acc (n div 10) (digit_char (nat (n mod 10)) # acc))"
  by pat_completeness auto
termination
  by (relation "measure (\<lambda>(n, acc). nat n)") auto

text \<open>The decimal text of an integer, as a template literal renders \<^verbatim>\<open>Date.now()\<close>.\<close>

definition decimal :: "int \<Rightarrow> string" where
  "decimal n = (if n < 0 then CHR ''-'' # digits_acc (- n) [] else digits_acc n [])"

definition pad :: "nat \<Rightarrow> int \<Rightarrow> string" where
  "pad w n = replicate (w - length (decimal n)) (CHR ''0'') @ decimal n"

subsection \<open>Dates\<close>

text \<open>
  \<^verbatim>\<open>new Date(s)\<close> on a string. The model reads the ECMAScript date-time format
  \<^verbatim>\<open>YYYY-MM-DDTHH:mm\<close>, optionally followed by \<^verbatim>\<open>:ss\<close>, by \<^verbatim>\<open>:ss.s...\<close> and by
  \<^verbatim>\<open>Z\<close> or \<^verbatim>\<open>+HH:mm\<close> or \<^verbatim>\<open>-HH:mm\<close>, with the element ranges of V8 (a day of 1 to
  31 in any month, carried into the next month). A text without offset is local time,
  taken to be UTC. Every other text is an invalid date here; the formats a runtime reads
  beyond the standard one are not modelled. The value is the time in milliseconds since
  the epoch, \<open>None\<close> for an invalid date (whose time value is \<^verbatim>\<open>NaN\<close>).
\<close>

definition digit_val :: "char \<Rightarrow> nat option" where
  "digit_val c =
     (if of_char (CHR ''0'') \<le> (of_char c :: nat) \<and> (of_char c :: nat) \<le> of_char (CHR ''9'')
      then Some (of_char c - of_char (CHR ''0'')) else None)"

fun number_acc :: "nat \<Rightarrow> string \<Rightarrow> nat option" where
  "number_acc acc [] = Some acc"
| "number_acc acc (c # cs) =
     (case digit_val c of None \<Rightarrow> None | Some d \<Rightarrow> number_acc (10 * acc + d) cs)"

definition number :: "string \<Rightarrow> nat option" where
  "number s = (if s = [] then None else number_acc 0 s)"

definition days_from_civil :: "int \<Rightarrow> int \<Rightarrow> int \<Rightarrow> int" where
  "days_from_civil y m d =
     (let y1 = (if m \<le> 2 then y - 1 else y);
          era = y1 div 400;
          yoe = y1 - era * 400;
          doy = (153 * (m + (if m > 2 then -3 else 9)) + 2) div 5 + d - 1;
          doe = yoe * 365 + yoe div 4 - yoe div 100 + doy
      in era * 146097 + doe - 719468)"

definition civil_year_month :: "int \<Rightarrow> int \<times> int" where
  "civil_year_month z0 =
     (let z = z0 + 719468;
          era = z div 146097;
          doe = z - era * 146097;
          yoe = (doe - doe div 1460 + doe div 36524 - doe div 146096) div 365;
          doy = doe - (365 * yoe + yoe div 4 - yoe div 100);
          mp = (5 * doy + 2) div 153;
          m = (if mp < 10 then mp + 3 else mp - 9)
      in (yoe + era * 400 + (if m \<le> 2 then 1 else 0), m))"

definition parse_offset :: "string \<Rightarrow> int option" where
  "parse_offset s =
     (if s = [] \<or> s = ''Z'' then Some 0
      else if length s = 6 \<and> (s ! 0 = CHR ''+'' \<or> s ! 0 = CHR ''-'') \<and> s ! 3 = CHR '':''
      then (case (number (take 2 (drop 1 s)), number (drop 4 s)) of
              (Some h, Some m) \<Rightarrow>
                if h \<le> 23 \<and> m \<le> 59
                then Some ((if s ! 0 = CHR ''-'' then -1 else 1) * (int h * 60 + int m))
                else None
            | _ \<Rightarrow> None)
      else None)"

text \<open>The seconds, the milliseconds and the offset in minutes, from the text after
  \<^verbatim>\<open>HH:mm\<close>. A fraction of any length is cut to milliseconds.\<close>

definition parse_seconds :: "string \<Rightarrow> (nat \<times> nat \<times> int) option" where
  "parse_seconds s =
     (if take 1 s = '':'' then
        (case number (take 2 (drop 1 s)) of
           None \<Rightarrow> None
         | Some sec \<Rightarrow>
             if length (take 2 (drop 1 s)) \<noteq> 2 \<or> sec > 59 then None
             else if take 1 (drop 3 s) = ''.'' then
               (let frac = takeWhile (\<lambda>c. digit_val c \<noteq> None) (drop 4 s) in
                case (number (take 3 (frac @ ''00'')), parse_offset (drop (4 + length frac) s)) of
                  (Some ms, Some off) \<Rightarrow> Some (sec, ms, off)
                | _ \<Rightarrow> None)
             else (case parse_offset (drop 3 s) of
                     Some off \<Rightarrow> Some (sec, 0, off) | None \<Rightarrow> None))
      else (case parse_offset s of Some off \<Rightarrow> Some (0, 0, off) | None \<Rightarrow> None))"

definition Date_parse :: "string \<Rightarrow> int option" where
  "Date_parse s =
     (if length s < 16 \<or> s ! 4 \<noteq> CHR ''-'' \<or> s ! 7 \<noteq> CHR ''-'' \<or> s ! 10 \<noteq> CHR ''T''
         \<or> s ! 13 \<noteq> CHR '':'' then None
      else
        (case (number (take 4 s), number (take 2 (drop 5 s)), number (take 2 (drop 8 s)),
               number (take 2 (drop 11 s)), number (take 2 (drop 14 s)),
               parse_seconds (drop 16 s)) of
           (Some y, Some mo, Some d, Some h, Some mi, Some (sec, ms, off)) \<Rightarrow>
             if 1 \<le> mo \<and> mo \<le> 12 \<and> 1 \<le> d \<and> d \<le> 31 \<and> mi \<le> 59
                \<and> (h \<le> 23 \<or> (h = 24 \<and> mi = 0 \<and> sec = 0 \<and> ms = 0))
             then Some (((days_from_civil (int y) (int mo) (int d) * 24 + int h) * 60
                          + int mi - off) * 60000 + int sec * 1000 + int ms)
             else None
         | _ \<Rightarrow> None))"

text \<open>\<^verbatim>\<open>new Date(x)\<close> for a field that may be missing: \<^verbatim>\<open>new Date(undefined)\<close> is an
  invalid date. (\<^verbatim>\<open>new Date(null)\<close> is the epoch; the code never reaches it with a
  field that passed \<^verbatim>\<open>requireField\<close>, and a missing field is read as undefined.)\<close>

definition new_Date :: "string option \<Rightarrow> int option" where
  "new_Date x = (case x of None \<Rightarrow> None | Some s \<Rightarrow> Date_parse s)"

text \<open>\<^verbatim>\<open>date.toISOString().substring(0, 7)\<close>: the year and month in UTC; an invalid
  date raises a RangeError. Years outside 0 to 9999 are written with a sign and six
  digits, of which the first seven characters remain.\<close>

definition iso_month :: "int option \<Rightarrow> error + string" where
  "iso_month t =
     (case t of
        None \<Rightarrow> Inl RangeError
      | Some ms \<Rightarrow>
          (let (y, m) = civil_year_month (ms div 86400000) in
           if 0 \<le> y \<and> y \<le> 9999 then Inr (pad 4 y @ ''-'' @ pad 2 m)
           else Inr (take 7 ((if y < 0 then ''-'' else ''+'') @ pad 6 \<bar>y\<bar>))))"

text \<open>\<^verbatim>\<open>new Date(month + '-01').toLocaleDateString('en-US', {month: 'short'})\<close> for a
  bucket key \<^verbatim>\<open>YYYY-MM\<close>, with the local time zone taken to be UTC.\<close>

definition month_label :: "string \<Rightarrow> string" where
  "month_label k =
     (case (number (take 4 k), number (drop 5 k)) of
        (Some y, Some m) \<Rightarrow>
          if length k = 7 \<and> k ! 4 = CHR ''-'' \<and> 1 \<le> m \<and> m \<le> 12
          then [''Jan'', ''Feb'', ''Mar'', ''Apr'', ''May'', ''Jun'',
                ''Jul'', ''Aug'', ''Sep'', ''Oct'', ''Nov'', ''Dec''] ! (m - 1)
          else ''Invalid Date''
      | _ \<Rightarrow> ''Invalid Date'')"

text \<open>\<^verbatim>\<open>Math.round\<close>: the nearest integer, a half rounded up.\<close>

definition Math_round :: "rat \<Rightarrow> int" where
  "Math_round x = \<lfloor>x + 1 / 2\<rfloor>"

section \<open>The ledger accessor\<close>

text \<open>
  The world state is a list of keys with their bytes, kept in key order by \<open>put\<close>.
  A transaction reads the state it started from and collects its writes
  (\<^verbatim>\<open>putState\<close> buffers a write until commit); \<open>commit\<close> applies them in order.
\<close>

type_synonym ledger = "(string \<times> bytes) list"

type_synonym writes = "(string \<times> bytes) list"

fun put :: "ledger \<Rightarrow> string \<Rightarrow> bytes \<Rightarrow> ledger" where
  "put [] k v = [(k, v)]"
| "put ((k', v') # l) k v =
     (if k < k' then (k, v) # (k', v') # l
      else if k = k' then (k, v) # l
      else (k', v') # put l k v)"

definition commit :: "ledger \<Rightarrow> writes \<Rightarrow> ledger" where
  "commit l ws = foldl (\<lambda>l' (k, v). put l' k v) l ws"

definition getState :: "ledger \<Rightarrow> string \<Rightarrow> bytes option" where
  "getState l k = map_of l k"

definition buffer_length :: "bytes \<Rightarrow> nat" where
  "buffer_length b = (case b of Json _ \<Rightarrow> 1 | Garbage s \<Rightarrow> length s)"


text \<open>\<^verbatim>\<open>getQueryResult\<close> with the selector \<^verbatim>\<open>{"f": {"$exists": true}}\<close>: the stored JSON
  documents that have the field, in key order. A field is given by its accessor. (A field
  that is \<^verbatim>\<open>null\<close> counts as missing here; the contract stores no \<^verbatim>\<open>null\<close> in a field
  that it queries by.)\<close>

definition getQueryResult_exists :: "ledger \<Rightarrow> (document \<Rightarrow> 'a option) \<Rightarrow> (string \<times> bytes) list" where
  "getQueryResult_exists l field =
     filter (\<lambda>(k, v). case v of Json d \<Rightarrow> field d \<noteq> None | Garbage _ \<Rightarrow> False) l"

text \<open>
  What an invocation reads besides its arguments and the state: the clock
  (\<^verbatim>\<open>Date.now()\<close> for a quality key, \<^verbatim>\<open>Date.now()\<close> for a notification id,
  \<^verbatim>\<open>new Date().toISOString()\<close>), the text \<^verbatim>\<open>Math.random().toString(36).substr(2, 9)\<close>,
  and whether the ledger accessor fails the \<open>n\<close>-th \<^verbatim>\<open>putState\<close> of the invocation.
  \<open>Number_toString\<close> is the runtime's text of a number in a template literal.
\<close>

record runtime =
  now_key :: int
  now_id :: int
  now_iso :: string
  random_suffix :: string
  put_fault :: "nat \<Rightarrow> bool"
  Number_toString :: "rat \<Rightarrow> string"

definition putState :: "runtime \<Rightarrow> nat \<Rightarrow> string \<Rightarrow> bytes \<Rightarrow> error + (string \<times> bytes)" where
  "putState rt n k v = (if put_fault rt n then Inl StorageError else Inr (k, v))"

section \<open>The contract\<close>

subsection \<open>Helpers\<close>

datatype scalar = Str string | Num rat | Undefined

definition of_string :: "string option \<Rightarrow> scalar" where
  "of_string x = (case x of None \<Rightarrow> Undefined | Some s \<Rightarrow> Str s)"

definition of_number :: "rat option \<Rightarrow> scalar" where
  "of_number x = (case x of None \<Rightarrow> Undefined | Some n \<Rightarrow> Num n)"

text \<open>A string field in a template literal.\<close>

definition template :: "string option \<Rightarrow> string" where
  "template x = (case x of None \<Rightarrow> ''undefined'' | Some s \<Rightarrow> s)"

definition field_required :: "string \<Rightarrow> string" where
  "field_required fieldName = ''The '' @ [CHR 0x27] @ fieldName @ [CHR 0x27] @ '' field is required.''"

definition requireField :: "scalar \<Rightarrow> string \<Rightarrow> error + unit" where
  "requireField v fieldName =
     (case v of
        Str s \<Rightarrow> if trim s = [] then Inl (ValidationError (field_required fieldName))
                 else Inr ()
      | Num _ \<Rightarrow> Inr ()
      | Undefined \<Rightarrow> Inl (ValidationError (field_required fieldName)))"

definition isValidDate :: "string \<Rightarrow> bool" where
  "isValidDate dateString = (Date_parse dateString \<noteq> None \<and> includes_char dateString (CHR ''T''))"

text \<open>Statements in sequence, each of which may throw: the first error, if any.\<close>

fun seq_checks :: "(error + unit) list \<Rightarrow> error + unit" where
  "seq_checks [] = Inr ()"
| "seq_checks (Inl e # cs) = Inl e"
| "seq_checks (Inr u # cs) = seq_checks cs"

definition check :: "bool \<Rightarrow> string \<Rightarrow> error + unit" where
  "check bad msg = (if bad then Inl (ValidationError msg) else Inr ())"

definition validateProduct :: "product \<Rightarrow> error + unit" where
  "validateProduct p =
     seq_checks
      [requireField (of_string (id_P p)) ''id'',
       requireField (of_string (name p)) ''name'',
       requireField (of_string (barcode p)) ''barcode'',
       requireField (of_string (placeOfOrigin p)) ''placeOfOrigin'',
       requireField (of_string (productionDate p)) ''productionDate'',
       requireField (of_string (expirationDate p)) ''expirationDate'',
       requireField (of_number (unitQuantity p)) ''unitQuantity'',
       requireField (of_string (unitQuantityType p)) ''unitQuantityType'',
       requireField (of_string (unitPrice p)) ''unitPrice'',
       requireField (of_string (category p)) ''category'',
       requireField (of_string (location (current (locationData p))))
         ''locationData.current.location'',
       requireField (of_string (arrivalDate (current (locationData p))))
         ''locationData.current.arrivalDate'',
       check (\<not> isValidDate (template (productionDate p)))
         ''Invalid production date format. Use ISO 8601 format.'',
       check (\<not> isValidDate (template (expirationDate p)))
         ''Invalid expiration date format. Use ISO 8601 format.'',
       check (\<not> isValidDate (template (arrivalDate (current (locationData p)))))
         ''Invalid arrival date format. Use ISO 8601 format.'',
       check (case (new_Date (expirationDate p), new_Date (productionDate p)) of
                (Some e, Some d) \<Rightarrow> e \<le> d | _ \<Rightarrow> False)
         ''Expiration date must be after production date.'',
       check (case unitQuantity p of Some q \<Rightarrow> q \<le> 0 | None \<Rightarrow> False)
         ''Unit quantity must be positive.'',
       check (case batchQuantity p of Some q \<Rightarrow> q \<noteq> 0 \<and> q \<le> 0 | None \<Rightarrow> False)
         ''Batch quantity must be positive if specified.'',
       check (js_length (template (name p)) > 100)
         ''Product name too long (max 100 characters).'',
       check (js_length (template (placeOfOrigin p)) > 200)
         ''Place of origin too long (max 200 characters).'']"

text \<open>\<^verbatim>\<open>validateProductData\<close> on the parsed payload. A document of another class has no
  \<^verbatim>\<open>name\<close> (and a quality record no \<^verbatim>\<open>id\<close>), so it fails at one of the first two
  checks.\<close>

definition validateProductData :: "document \<Rightarrow> error + unit" where
  "validateProductData d =
     (case d of
        ProductDoc p \<Rightarrow> validateProduct p
      | _ \<Rightarrow> seq_checks [requireField (of_string (doc_id d)) ''id'',
                         requireField Undefined ''name''])"

definition validateQualityRecord :: "document \<Rightarrow> error + unit" where
  "validateQualityRecord d =
     (case d of
        QualityDoc q \<Rightarrow>
          seq_checks
           [requireField (of_string (inspector q)) ''inspector'',
            requireField (of_number (score q)) ''score'',
            requireField (of_string (notes_Q q)) ''notes'',
            requireField (of_string (timestamp_Q q)) ''timestamp'',
            check (case score q of Some s \<Rightarrow> s < 0 \<or> s > 100 | None \<Rightarrow> False)
              ''Quality score must be between 0 and 100.'',
            check (\<not> isValidDate (template (timestamp_Q q)))
              ''Invalid timestamp format. Use ISO 8601 format.'']
      | _ \<Rightarrow> requireField Undefined ''inspector'')"

subsection \<open>Notifications\<close>

text \<open>\<^verbatim>\<open>createNotification\<close>: the write of the notification under its own id, as the
  \<open>n\<close>-th \<^verbatim>\<open>putState\<close> of the invocation. A failure is caught and logged; the
  invocation goes on without the write.\<close>

definition createNotification :: "runtime \<Rightarrow> nat \<Rightarrow> notification \<Rightarrow> writes" where
  "createNotification rt n notificationData =
     (case putState rt n (id_N notificationData) (JSON_stringify (NotificationDoc notificationData)) of
        Inl _ \<Rightarrow> []
      | Inr w \<Rightarrow> [w])"

definition notification_id :: "runtime \<Rightarrow> string" where
  "notification_id rt = ''NOTIF_'' @ decimal (now_id rt) @ ''_'' @ random_suffix rt"

subsection \<open>Product management\<close>

definition productExists :: "ledger \<Rightarrow> string \<Rightarrow> bool" where
  "productExists l productId =
     (case getState l productId of None \<Rightarrow> False | Some data \<Rightarrow> buffer_length data > 0)"

definition readProduct :: "ledger \<Rightarrow> string \<Rightarrow> error + document" where
  "readProduct l productId =
     (case getState l productId of
        None \<Rightarrow> Inl (NotFound (''The product '' @ productId @ '' does not exist.''))
      | Some data \<Rightarrow>
          if buffer_length data = 0
          then Inl (NotFound (''The product '' @ productId @ '' does not exist.''))
          else JSON_parse data)"

text \<open>The operations return the writes of the invocation, or the error that aborts it
  (an aborted invocation writes nothing).\<close>

definition createProduct :: "runtime \<Rightarrow> ledger \<Rightarrow> bytes \<Rightarrow> error + writes" where
  "createProduct rt l productJson =
     (case JSON_parse productJson of
        Inl e \<Rightarrow> Inl e
      | Inr product \<Rightarrow>
     (case validateProductData product of
        Inl e \<Rightarrow> Inl e
      | Inr _ \<Rightarrow>
          let pid = template (doc_id product) in
          if productExists l pid
          then Inl (AlreadyExists (''The product '' @ pid @ '' already exists.''))
          else
            (case putState rt 0 pid (JSON_stringify product) of
               Inl e \<Rightarrow> Inl e
             | Inr w \<Rightarrow>
                 Inr (w # createNotification rt 1
                       \<lparr>id_N = notification_id rt,
                        productId_N = pid,
                        type_N = ''created'',
                        message = ''Product '' @ template (doc_name product) @ '' created at ''
                                  @ template (doc_placeOfOrigin product),
                        timestamp_N = now_iso rt,
                        location_N = doc_placeOfOrigin product,
                        severity = ''info'',
                        acknowledged = False\<rparr>))))"

text \<open>Modelled from the spec: the constructor of \<^verbatim>\<open>ProductLocationEntry\<close>
  (\<^verbatim>\<open>models/product-location-entry.ts\<close> is not among the sources), called with an
  object of the two fields, which the new entry holds.\<close>

definition new_ProductLocationEntry :: "string option \<Rightarrow> string option \<Rightarrow> location_entry" where
  "new_ProductLocationEntry arrival loc = \<lparr>location = loc, arrivalDate = arrival\<rparr>"

text \<open>The location update of \<^verbatim>\<open>shipProductTo\<close>. A stored document that is not a
  product has no \<^verbatim>\<open>locationData\<close>, and reading \<^verbatim>\<open>previous\<close> of it is a TypeError.\<close>

definition ship_update :: "document \<Rightarrow> string \<Rightarrow> string \<Rightarrow> error + document" where
  "ship_update product newLocation arrival =
     (case product of
        ProductDoc p \<Rightarrow>
          Inr (ProductDoc (p\<lparr>locationData :=
                 \<lparr>current = \<lparr>location = Some newLocation, arrivalDate = Some arrival\<rparr>,
                  previous = previous (locationData p)
                    @ [new_ProductLocationEntry (arrivalDate (current (locationData p)))
                         (location (current (locationData p)))]\<rparr>\<rparr>))
      | _ \<Rightarrow> Inl TypeError)"

definition shipProductTo :: "runtime \<Rightarrow> ledger \<Rightarrow> string \<Rightarrow> string \<Rightarrow> string \<Rightarrow> error + writes" where
  "shipProductTo rt l productId newLocation arrival =
     (if \<not> productExists l productId
      then Inl (NotFound (''The product '' @ productId @ '' does not exist.''))
      else
     (case seq_checks
             [requireField (Str newLocation) ''newLocation'',
              requireField (Str arrival) ''arrivalDate'',
              check (\<not> isValidDate arrival) ''Invalid arrival date format. Use ISO 8601 format.''] of
        Inl e \<Rightarrow> Inl e
      | Inr _ \<Rightarrow>
     (case readProduct l productId of
        Inl e \<Rightarrow> Inl e
      | Inr product \<Rightarrow>
     (case ship_update product newLocation arrival of
        Inl e \<Rightarrow> Inl e
      | Inr product' \<Rightarrow>
     (case putState rt 0 productId (JSON_stringify product') of
        Inl e \<Rightarrow> Inl e
      | Inr w \<Rightarrow>
          Inr (w # createNotification rt 1
                \<lparr>id_N = notification_id rt,
                 productId_N = productId,
                 type_N = ''shipped'',
                 message = ''Product '' @ template (doc_name product') @ '' shipped to '' @ newLocation,
                 timestamp_N = now_iso rt,
                 location_N = Some newLocation,
                 severity = ''info'',
                 acknowledged = False\<rparr>))))))"


subsection \<open>Queries\<close>

text \<open>\<^verbatim>\<open>executeQuery\<close>, \<^verbatim>\<open>getAllQualityRecords\<close> and the loop of \<^verbatim>\<open>getQualityRecords\<close>:
  every result is parsed, and one that does not parse is logged and skipped.\<close>

fun parse_results :: "(string \<times> bytes) list \<Rightarrow> document list" where
  "parse_results [] = []"
| "parse_results ((k, v) # rs) =
     (case JSON_parse v of Inl _ \<Rightarrow> parse_results rs | Inr record \<Rightarrow> record # parse_results rs)"

definition queryAllProducts :: "ledger \<Rightarrow> document list" where
  "queryAllProducts l = parse_results (getQueryResult_exists l doc_id)"

definition getAllQualityRecords :: "ledger \<Rightarrow> document list" where
  "getAllQualityRecords l = parse_results (getQueryResult_exists l doc_inspector)"

subsection \<open>Quality assurance\<close>

definition quality_severity :: "rat option \<Rightarrow> string" where
  "quality_severity sc =
     (case sc of
        Some x \<Rightarrow> if x \<ge> 80 then ''info'' else if x \<ge> 60 then ''warning'' else ''error''
      | None \<Rightarrow> ''error'')"

definition quality_key :: "runtime \<Rightarrow> string \<Rightarrow> string" where
  "quality_key rt productId = ''QUALITY_'' @ productId @ ''_'' @ decimal (now_key rt)"

definition addQualityRecord :: "runtime \<Rightarrow> ledger \<Rightarrow> string \<Rightarrow> bytes \<Rightarrow> error + writes" where
  "addQualityRecord rt l productId qualityData =
     (if \<not> productExists l productId
      then Inl (NotFound (''The product '' @ productId @ '' does not exist.''))
      else
     (case JSON_parse qualityData of
        Inl e \<Rightarrow> Inl e
      | Inr qualityRecord \<Rightarrow>
     (case validateQualityRecord qualityRecord of
        Inl e \<Rightarrow> Inl e
      | Inr _ \<Rightarrow>
     (case putState rt 0 (quality_key rt productId) (JSON_stringify qualityRecord) of
        Inl e \<Rightarrow> Inl e
      | Inr w \<Rightarrow>
          Inr (w # createNotification rt 1
                \<lparr>id_N = notification_id rt,
                 productId_N = productId,
                 type_N = ''quality_check'',
                 message = ''Quality inspection completed for '' @ productId @ ''. Score: ''
                           @ (case doc_score qualityRecord of
                                Some x \<Rightarrow> Number_toString rt x | None \<Rightarrow> ''undefined'')
                           @ ''/100'',
                 timestamp_N = now_iso rt,
                 location_N = doc_location qualityRecord,
                 severity = quality_severity (doc_score qualityRecord),
                 acknowledged = False\<rparr>)))))"


text \<open>\<^verbatim>\<open>Array.prototype.sort\<close> with a comparator is stable: an element stays before the
  elements after it that do not compare smaller. (With a comparator that is not a
  consistent order, which here needs an invalid date, the order of the result is the
  implementation's; the model then gives the order of this insertion sort.)\<close>

fun insert_sorted :: "('a \<Rightarrow> 'a \<Rightarrow> int) \<Rightarrow> 'a \<Rightarrow> 'a list \<Rightarrow> 'a list" where
  "insert_sorted cmp x [] = [x]"
| "insert_sorted cmp x (y # ys) =
     (if cmp x y \<le> 0 then x # y # ys else y # insert_sorted cmp x ys)"

definition Array_sort :: "('a \<Rightarrow> 'a \<Rightarrow> int) \<Rightarrow> 'a list \<Rightarrow> 'a list" where
  "Array_sort cmp xs = foldr (insert_sorted cmp) xs []"




subsection \<open>Analytics\<close>

record trend =
  month :: string
  products :: nat
  shipments :: nat

record analytics_data =
  totalProducts :: nat
  activeShipments :: nat
  completedDeliveries :: nat
  averageDeliveryTime :: "int option"
  onTimeDeliveryRate :: int
  qualityScore :: "rat option"
  categoryStats :: "(string \<times> nat) list"
  locationStats :: "(string \<times> nat) list"
  monthlyTrends :: "trend list"

text \<open>
  The objects used as dictionaries keep their keys in insertion order; they are
  association lists with one entry for a key. A number that may be \<^verbatim>\<open>NaN\<close> (a sum
  over an invalid date or a missing score) is an \<open>option\<close>. Division and rounding are
  exact here, where the code computes in floating point. The counters are dictionaries
  without the members every object inherits, so a category or location named like one
  of those is outside the model.
\<close>

fun bump :: "(string \<times> nat) list \<Rightarrow> string \<Rightarrow> (string \<times> nat) list" where
  "bump [] k = [(k, 1)]"
| "bump ((k', n) # m) k = (if k' = k then (k', n + 1) # m else (k', n) # bump m k)"

text \<open>\<^verbatim>\<open>if (!monthlyData[m]) monthlyData[m] = {products: 0, shipments: 0};
  monthlyData[m].products++\<close>\<close>

fun add_production :: "(string \<times> nat \<times> nat) list \<Rightarrow> string \<Rightarrow> (string \<times> nat \<times> nat) list" where
  "add_production [] k = [(k, 1, 0)]"
| "add_production ((k', p, s) # m) k =
     (if k' = k then (k', p + 1, s) # m else (k', p, s) # add_production m k)"

text \<open>\<^verbatim>\<open>if (monthlyData[m]) monthlyData[m].shipments++\<close>\<close>

fun add_shipment :: "(string \<times> nat \<times> nat) list \<Rightarrow> string \<Rightarrow> (string \<times> nat \<times> nat) list" where
  "add_shipment [] k = []"
| "add_shipment ((k', p, s) # m) k =
     (if k' = k then (k', p, s + 1) # m else (k', p, s) # add_shipment m k)"

record tally =
  t_categoryStats :: "(string \<times> nat) list"
  t_locationStats :: "(string \<times> nat) list"
  t_monthlyData :: "(string \<times> nat \<times> nat) list"
  t_totalDeliveryTime :: "int option"
  t_deliveryCount :: nat
  t_onTimeDeliveries :: nat

definition tally0 :: tally where
  "tally0 = \<lparr>t_categoryStats = [], t_locationStats = [], t_monthlyData = [],
             t_totalDeliveryTime = Some 0, t_deliveryCount = 0, t_onTimeDeliveries = 0\<rparr>"

definition nan_add :: "int option \<Rightarrow> int option \<Rightarrow> int option" where
  "nan_add a b = (case (a, b) of (Some x, Some y) \<Rightarrow> Some (x + y) | _ \<Rightarrow> None)"

definition nan_sub :: "int option \<Rightarrow> int option \<Rightarrow> int option" where
  "nan_sub a b = (case (a, b) of (Some x, Some y) \<Rightarrow> Some (x - y) | _ \<Rightarrow> None)"

text \<open>The delivery part of the loop body, for a product that has moved.\<close>

definition tally_delivery :: "tally \<Rightarrow> location_data \<Rightarrow> error + tally" where
  "tally_delivery t ld =
     (case previous ld of
        [] \<Rightarrow> Inr t
      | firstLocation # _ \<Rightarrow>
          let deliveryTime = nan_sub (new_Date (arrivalDate (current ld)))
                                     (new_Date (arrivalDate firstLocation)) in
          (case iso_month (new_Date (arrivalDate (current ld))) of
             Inl e \<Rightarrow> Inl e
           | Inr shipmentMonth \<Rightarrow>
               Inr (t\<lparr>t_totalDeliveryTime := nan_add (t_totalDeliveryTime t) deliveryTime,
                      t_deliveryCount := t_deliveryCount t + 1,
                      t_monthlyData := add_shipment (t_monthlyData t) shipmentMonth,
                      t_onTimeDeliveries :=
                        (case deliveryTime of
                           Some ms \<Rightarrow> if ms \<le> 7 * (1000 * 60 * 60 * 24)
                                      then t_onTimeDeliveries t + 1 else t_onTimeDeliveries t
                         | None \<Rightarrow> t_onTimeDeliveries t)\<rparr>)))"

text \<open>The loop body of \<^verbatim>\<open>getAnalyticsData\<close> for one element of the query result.\<close>

definition tally_product :: "tally \<Rightarrow> document \<Rightarrow> error + tally" where
  "tally_product t product =
     (case doc_locationData product of
        None \<Rightarrow> Inl TypeError
      | Some ld \<Rightarrow>
          (case iso_month (new_Date (doc_productionDate product)) of
             Inl e \<Rightarrow> Inl e
           | Inr productionMonth \<Rightarrow>
               tally_delivery
                 (t\<lparr>t_categoryStats := bump (t_categoryStats t) (template (doc_category product)),
                    t_locationStats := bump (t_locationStats t) (template (location (current ld))),
                    t_monthlyData := add_production (t_monthlyData t) productionMonth\<rparr>)
                 ld))"

fun tally_products :: "tally \<Rightarrow> document list \<Rightarrow> error + tally" where
  "tally_products t [] = Inr t"
| "tally_products t (p # ps) =
     (case tally_product t p of Inl e \<Rightarrow> Inl e | Inr t' \<Rightarrow> tally_products t' ps)"

text \<open>\<^verbatim>\<open>totalQualityScore += record.score\<close> over the records: \<^verbatim>\<open>NaN\<close> once a score is
  missing.\<close>

fun sum_scores :: "document list \<Rightarrow> rat option" where
  "sum_scores [] = Some 0"
| "sum_scores (r # rs) =
     (case (doc_score r, sum_scores rs) of (Some x, Some y) \<Rightarrow> Some (x + y) | _ \<Rightarrow> None)"

text \<open>\<^verbatim>\<open>Object.entries(monthlyData).sort(([a], [b]) => a.localeCompare(b))\<close>: the keys are
  digits, a sign and hyphens, which \<^verbatim>\<open>localeCompare\<close> orders as bytes.\<close>

definition compare_months :: "string \<times> nat \<times> nat \<Rightarrow> string \<times> nat \<times> nat \<Rightarrow> int" where
  "compare_months a b = (if fst a < fst b then -1 else if fst a = fst b then 0 else 1)"

definition last_six :: "'a list \<Rightarrow> 'a list" where
  "last_six xs = drop (length xs - 6) xs"

definition previous_length :: "document \<Rightarrow> nat" where
  "previous_length p = (case doc_locationData p of Some ld \<Rightarrow> length (previous ld) | None \<Rightarrow> 0)"

definition getAnalyticsData :: "ledger \<Rightarrow> error + analytics_data" where
  "getAnalyticsData l =
     (let prods = queryAllProducts l in
      case tally_products tally0 prods of
        Inl e \<Rightarrow> Inl e
      | Inr t \<Rightarrow>
          let allQualityRecords = getAllQualityRecords l;
              qualityCount = length allQualityRecords;
              deliveryCount = t_deliveryCount t
          in Inr \<lparr>totalProducts = length prods,
                  activeShipments =
                    length (filter (\<lambda>p. previous_length p > 0 \<and> previous_length p < 3) prods),
                  completedDeliveries = length (filter (\<lambda>p. previous_length p \<ge> 2) prods),
                  averageDeliveryTime =
                    (if deliveryCount > 0
                     then map_option (\<lambda>total. Math_round (of_int total / of_nat deliveryCount
                                                            / (1000 * 60 * 60 * 24)))
                            (t_totalDeliveryTime t)
                     else Some 0),
                  onTimeDeliveryRate =
                    (if deliveryCount > 0
                     then Math_round (of_nat (t_onTimeDeliveries t) / of_nat deliveryCount * 100)
                     else 100),
                  qualityScore =
                    (if qualityCount > 0
                     then map_option (\<lambda>total. of_int (Math_round (total / of_nat qualityCount * 10)) / 10)
                            (sum_scores allQualityRecords)
                     else Some 95),
                  categoryStats = t_categoryStats t,
                  locationStats = t_locationStats t,
                  monthlyTrends =
                    map (\<lambda>(m, p, s). \<lparr>month = month_label m, products = p, shipments = s\<rparr>)
                      (last_six (Array_sort compare_months (t_monthlyData t)))\<rparr>)"

section \<open>Example data\<close>

text \<open>The product, the quality record and the readings used to run the contract on
  concrete inputs.\<close>

definition example_product :: product where
  "example_product =
     \<lparr>id_P = Some ''P1'', componentProductIds = [], barcode = Some ''1234567890'',
      name = Some ''Apples'', placeOfOrigin = Some ''Markham'',
      productionDate = Some ''2021-06-24T18:25:43.511Z'',
      expirationDate = Some ''2021-06-25T18:25:43.511Z'',
      unitQuantity = Some 300, unitQuantityType = Some ''mg'', batchQuantity = Some 1000,
      unitPrice = Some ''5.00'', category = Some ''Fruits'', variety = None,
      misc = Some ''test-data'',
      locationData =
        \<lparr>current = \<lparr>location = Some ''Markham Farm'',
                     arrivalDate = Some ''2021-06-24T18:25:43.511Z''\<rparr>,
         previous = []\<rparr>\<rparr>"

definition example_quality :: quality_record where
  "example_quality =
     \<lparr>productId_Q = Some ''P1'', inspector = Some ''Ann'', score = Some 100,
      notes_Q = Some ''ok'', timestamp_Q = Some ''2021-06-27T00:00:00.000Z'',
      location_Q = None, testResults = None, certificationType = None,
      inspectionStandard = None, batchId = None\<rparr>"

definition example_runtime :: runtime where
  "example_runtime =
     \<lparr>now_key = 1625097600000, now_id = 1625097600000,
      now_iso = ''2021-07-01T00:00:00.000Z'', random_suffix = ''k3j2h1g9a'',
      put_fault = (\<lambda>_. False), Number_toString = (\<lambda>_. ''100'')\<rparr>"

definition example_ledger :: ledger where
  "example_ledger = [(''P1'', Json (ProductDoc example_product))]"

text \<open>A runtime whose ledger accessor fails the second write of an invocation, which
  is the write of the notification.\<close>

definition faulty_runtime :: runtime where
  "faulty_runtime = example_runtime\<lparr>put_fault := (\<lambda>n. n = 1)\<rparr>"

text \<open>The id that the example runtime gives to a notification, and a product that has
  this id.\<close>

definition example_notification_id :: string where
  "example_notification_id = ''NOTIF_1625097600000_k3j2h1g9a''"



definition created_notification :: "string \<Rightarrow> notification" where
  "created_notification pid =
     \<lparr>id_N = example_notification_id, productId_N = pid, type_N = ''created'',
      message = ''Product Apples created at Markham'',
      timestamp_N = ''2021-07-01T00:00:00.000Z'', location_N = Some ''Markham'',
      severity = ''info'', acknowledged = False\<rparr>"



definition later_runtime :: runtime where
  "later_runtime = example_runtime\<lparr>now_key := 1625097600001, now_id := 1625097600001\<rparr>"

text \<open>The example product after a shipment that arrived in the month after its
  production.\<close>

definition july_product :: product where
  "july_product =
     example_product\<lparr>locationData :=
       \<lparr>current = \<lparr>location = Some ''Warehouse A'',
                    arrivalDate = Some ''2021-07-01T00:00:00.000Z''\<rparr>,
        previous = [\<lparr>location = Some ''Markham Farm'',
                     arrivalDate = Some ''2021-06-24T18:25:43.511Z''\<rparr>]\<rparr>\<rparr>"

section \<open>Comparing two executions\<close>

text \<open>Two outcomes agree on the main write: the same error, or as many writes with the
  same first write (\<open>same_main_write\<close>), or with the same bytes in the first write
  (\<open>same_main_value\<close>).\<close>

definition same_main_write :: "error + writes \<Rightarrow> error + writes \<Rightarrow> bool" where
  "same_main_write r1 r2 =
     (case (r1, r2) of
        (Inl e1, Inl e2) \<Rightarrow> e1 = e2
      | (Inr ws1, Inr ws2) \<Rightarrow> length ws1 = length ws2 \<and> take 1 ws1 = take 1 ws2
      | _ \<Rightarrow> False)"

definition same_main_value :: "error + writes \<Rightarrow> error + writes \<Rightarrow> bool" where
  "same_main_value r1 r2 =
     (case (r1, r2) of
        (Inl e1, Inl e2) \<Rightarrow> e1 = e2
      | (Inr ws1, Inr ws2) \<Rightarrow>
          length ws1 = length ws2 \<and> take 1 (map snd ws1) = take 1 (map snd ws2)
      | _ \<Rightarrow> False)"





section \<open>Properties\<close>

subsection \<open>The ledger\<close>

lemma getState_put_same: "getState (put l k v) k = Some v"
  by (induction l) (auto simp: getState_def)


lemma put_mem: "(k, v) \<in> set (put l k v)"
  by (induction l) auto


subsection \<open>A valid date is not blank\<close>

lemma ws_no_T: "w \<in> set white_space_seqs \<Longrightarrow> CHR ''T'' \<notin> set w"
  by (auto simp: white_space_seqs_def)

lemma ws_length:
  "w \<in> set white_space_seqs \<Longrightarrow>
     w \<noteq> [] \<and> length w = (if hd w \<in> {CHR 0x09, CHR 0x0A, CHR 0x0B, CHR 0x0C, CHR 0x0D, CHR 0x20} then 1
                 else if hd w = CHR 0xC2 then 2 else 3)"
  by (auto simp: white_space_seqs_def)

lemma ws_rev_length:
  "w \<in> set white_space_seqs \<Longrightarrow>
     length w = (if hd (rev w) \<in> {CHR 0x09, CHR 0x0A, CHR 0x0B, CHR 0x0C, CHR 0x0D, CHR 0x20} then 1
                 else if hd (tl (rev w)) = CHR 0xC2 then 2 else 3)"
  by (auto simp: white_space_seqs_def)

lemma prefix_split:
  assumes "is_prefix w s" "CHR ''T'' \<in> set s" "CHR ''T'' \<notin> set w"
  shows "CHR ''T'' \<in> set (drop (length w) s)"
proof -
  have "s = w @ drop (length w) s"
    using assms(1) by (metis append_take_drop_id is_prefix_def)
  then have "set s = set w \<union> set (drop (length w) s)"
    by (metis set_append)
  with assms show ?thesis by blast
qed

lemma trim_start_keeps_T: "CHR ''T'' \<in> set s \<Longrightarrow> CHR ''T'' \<in> set (trim_start s)"
proof (induction s rule: trim_start.induct)
  case 1
  then show ?case by simp
next
  case (2 c cs)
  show ?case
  proof (cases "\<exists>w \<in> set white_space_seqs. is_prefix w (c # cs)")
    case False
    then show ?thesis using "2.prems" by simp
  next
    case True
    then obtain w where w: "w \<in> set white_space_seqs" "is_prefix w (c # cs)" by blast
    have ne: "w \<noteq> []" using ws_length [OF w(1)] by simp
    then have hd: "hd w = c" using w(2) by (cases w) (auto simp: is_prefix_def)
    have T: "CHR ''T'' \<in> set (drop (length w) (c # cs))"
      using prefix_split [OF w(2) "2.prems"] ws_no_T [OF w(1)] by simp
    have len: "length w = (if c \<in> {CHR 0x09, CHR 0x0A, CHR 0x0B, CHR 0x0C, CHR 0x0D, CHR 0x20} then 1
                 else if c = CHR 0xC2 then 2 else 3)"
      using ws_length [OF w(1)] hd by simp
    show ?thesis
    proof (cases "c \<in> {CHR 0x09, CHR 0x0A, CHR 0x0B, CHR 0x0C, CHR 0x0D, CHR 0x20}")
      case a: True
      then have "CHR ''T'' \<in> set cs" using T len by simp
      then show ?thesis using "2.IH"(1) [OF True a] True a by simp
    next
      case a: False
      show ?thesis
      proof (cases "c = CHR 0xC2")
        case b: True
        have "CHR ''T'' \<in> set (drop 1 cs)" using T len a b by simp
        then show ?thesis using "2.IH"(2) [OF True a b] True a b by simp
      next
        case b: False
        have "CHR ''T'' \<in> set (drop 2 cs)" using T len a b by (simp add: numeral_3_eq_3 numeral_2_eq_2)
        then show ?thesis using "2.IH"(3) [OF True a b] True a b by simp
      qed
    qed
  qed
qed


lemma trim_end_rev_keeps_T: "CHR ''T'' \<in> set s \<Longrightarrow> CHR ''T'' \<in> set (trim_end_rev s)"
proof (induction s rule: trim_end_rev.induct)
  case 1
  then show ?case by simp
next
  case (2 c cs)
  show ?case
  proof (cases "\<exists>w \<in> set white_space_seqs. is_prefix (rev w) (c # cs)")
    case False
    then show ?thesis using "2.prems" by simp
  next
    case True
    then obtain w where w: "w \<in> set white_space_seqs" "is_prefix (rev w) (c # cs)" by blast
    have ne: "rev w \<noteq> []" using ws_length [OF w(1)] by simp
    have eq: "c # cs = rev w @ drop (length w) (c # cs)"
      using w(2) by (metis append_take_drop_id is_prefix_def length_rev)
    have hd: "hd (rev w) = c" using ne eq by (cases "rev w") auto
    have tl: "length w > 1 \<Longrightarrow> hd (tl (rev w)) = hd cs"
    proof -
      assume "length w > 1"
      then obtain a b r where r: "rev w = a # b # r"
        by (cases "rev w"; cases "tl (rev w)") (auto dest: arg_cong [where f = length])
      obtain rest where "c # cs = rev w @ rest" using eq ..
      then have "cs = b # r @ rest" unfolding r by simp
      then have "hd cs = b" by simp
      then show ?thesis using r by simp
    qed
    have T: "CHR ''T'' \<in> set (drop (length (rev w)) (c # cs))"
      using prefix_split [OF w(2) "2.prems"] ws_no_T [OF w(1)] by simp
    have len: "length w = (if c \<in> {CHR 0x09, CHR 0x0A, CHR 0x0B, CHR 0x0C, CHR 0x0D, CHR 0x20} then 1
                 else if hd cs = CHR 0xC2 then 2 else 3)"
      using ws_rev_length [OF w(1)] hd tl by (auto split: if_splits)
    show ?thesis
    proof (cases "c \<in> {CHR 0x09, CHR 0x0A, CHR 0x0B, CHR 0x0C, CHR 0x0D, CHR 0x20}")
      case a: True
      then have "CHR ''T'' \<in> set cs" using T len by simp
      then show ?thesis using "2.IH"(1) [OF True a] True a by simp
    next
      case a: False
      then have "length w > 1" using len by (simp split: if_splits)
      then have "cs \<noteq> []" using eq by (cases cs) (auto dest: arg_cong [where f = length])
      then have one: "take 1 cs = [hd cs]" by (cases cs) simp_all
      show ?thesis
      proof (cases "take 1 cs = [CHR 0xC2]")
        case b: True
        then have "hd cs = CHR 0xC2" using one by simp
        then have "CHR ''T'' \<in> set (drop 1 cs)" using T len a by simp
        then show ?thesis using "2.IH"(2) [OF True a b] True a b by simp
      next
        case b: False
        then have "hd cs \<noteq> CHR 0xC2" using one by simp
        then have "CHR ''T'' \<in> set (drop 2 cs)"
          using T len a by (simp add: numeral_3_eq_3 numeral_2_eq_2)
        then show ?thesis using "2.IH"(3) [OF True a b] True a b by simp
      qed
    qed
  qed
qed

lemma trim_keeps_T: "CHR ''T'' \<in> set s \<Longrightarrow> trim s \<noteq> []"
proof -
  assume "CHR ''T'' \<in> set s"
  then have "CHR ''T'' \<in> set (trim_end_rev (rev (trim_start s)))"
    by (simp add: trim_start_keeps_T trim_end_rev_keeps_T)
  then show ?thesis by (auto simp: trim_def)
qed

lemma isValidDate_not_blank: "isValidDate t \<Longrightarrow> trim t \<noteq> []"
  by (simp add: isValidDate_def includes_char_def trim_keeps_T)


lemma example_exists: "productExists example_ledger ''P1''"
  by (simp add: productExists_def getState_def example_ledger_def buffer_length_def)

lemma example_dates:
  "isValidDate ''2021-06-27T00:00:00.000Z''"
  "isValidDate ''2021-06-24T18:25:43.511Z''"
  "isValidDate ''2021-06-25T18:25:43.511Z''"
  "isValidDate ''2021-06-26T00:00:00.000Z''"
  "isValidDate ''2021-07-01T00:00:00.000Z''"
  by code_simp+

lemma example_not_blank:
  "trim ''Ann'' \<noteq> []" "trim ''ok'' \<noteq> []" "trim ''Warehouse A'' \<noteq> []"
  by code_simp+

subsection \<open>Quality score range\<close>

lemma validateQualityRecord_iff:
  assumes "inspector q = Some i" "trim i \<noteq> []" "notes_Q q = Some n" "trim n \<noteq> []"
    and "timestamp_Q q = Some t" "isValidDate t" "score q = Some s"
  shows "validateQualityRecord (QualityDoc q) =
           (if s < 0 \<or> s > 100
            then Inl (ValidationError ''Quality score must be between 0 and 100.'')
            else Inr ())"
  using assms isValidDate_not_blank [of t]
  by (simp add: validateQualityRecord_def requireField_def of_string_def of_number_def
      check_def template_def)

text \<open>
  C10. For a quality record whose inspector and notes are present and not blank and
  whose timestamp is a valid date-time, added for an existing product:
  \<^verbatim>\<open>addQualityRecord\<close> fails with a validation error whenever the score is below 0 or
  above 100, and with a score of exactly 0 or exactly 100 it writes the record (when the
  ledger accepts the write).
\<close>

theorem quality_score_range:
  assumes "productExists l productId"
    and "inspector q = Some i" "trim i \<noteq> []" "notes_Q q = Some n" "trim n \<noteq> []"
    and "timestamp_Q q = Some t" "isValidDate t" "score q = Some s"
  shows "(s < 0 \<or> s > 100 \<longrightarrow>
            (\<exists>msg. addQualityRecord rt l productId (Json (QualityDoc q)) = Inl (ValidationError msg)))
       \<and> (s = 0 \<or> s = 100 \<longrightarrow> \<not> put_fault rt 0 \<longrightarrow>
            (\<exists>ws. addQualityRecord rt l productId (Json (QualityDoc q))
                     = Inr ((quality_key rt productId, Json (QualityDoc q)) # ws)))"
proof -
  note v = validateQualityRecord_iff [OF assms(2-8)]
  show ?thesis
    using assms(1) v
    by (auto simp: addQualityRecord_def JSON_parse_def JSON_stringify_def putState_def)
qed

theorem quality_score_range_witness:
  "(\<exists>msg. addQualityRecord example_runtime example_ledger ''P1''
            (Json (QualityDoc (example_quality\<lparr>score := Some 101\<rparr>))) = Inl (ValidationError msg))
   \<and> (\<exists>ws. addQualityRecord example_runtime example_ledger ''P1''
            (Json (QualityDoc example_quality))
          = Inr ((quality_key example_runtime ''P1'', Json (QualityDoc example_quality)) # ws))
   \<and> (\<exists>ws. addQualityRecord example_runtime example_ledger ''P1''
            (Json (QualityDoc (example_quality\<lparr>score := Some 0\<rparr>)))
          = Inr ((quality_key example_runtime ''P1'',
                  Json (QualityDoc (example_quality\<lparr>score := Some 0\<rparr>))) # ws))"
proof -
  have nf: "\<not> put_fault example_runtime 0" by (simp add: example_runtime_def)
  have a: "\<exists>msg. addQualityRecord example_runtime example_ledger ''P1''
            (Json (QualityDoc (example_quality\<lparr>score := Some 101\<rparr>))) = Inl (ValidationError msg)"
    using quality_score_range [OF example_exists, of "example_quality\<lparr>score := Some 101\<rparr>"
        "''Ann''" "''ok''" "''2021-06-27T00:00:00.000Z''" 101 example_runtime]
      example_not_blank example_dates
    by (simp add: example_quality_def)
  have b: "\<exists>ws. addQualityRecord example_runtime example_ledger ''P1''
            (Json (QualityDoc example_quality))
          = Inr ((quality_key example_runtime ''P1'', Json (QualityDoc example_quality)) # ws)"
    using quality_score_range [OF example_exists, of example_quality
        "''Ann''" "''ok''" "''2021-06-27T00:00:00.000Z''" 100 example_runtime]
      example_not_blank example_dates nf
    by (simp add: example_quality_def)
  have c: "\<exists>ws. addQualityRecord example_runtime example_ledger ''P1''
            (Json (QualityDoc (example_quality\<lparr>score := Some 0\<rparr>)))
          = Inr ((quality_key example_runtime ''P1'',
                  Json (QualityDoc (example_quality\<lparr>score := Some 0\<rparr>))) # ws)"
    using quality_score_range [OF example_exists, of "example_quality\<lparr>score := Some 0\<rparr>"
        "''Ann''" "''ok''" "''2021-06-27T00:00:00.000Z''" 0 example_runtime]
      example_not_blank example_dates nf
    by (simp add: example_quality_def)
  from a b c show ?thesis by blast
qed

subsection \<open>Analytics of an empty ledger\<close>

text \<open>
  C9. When the ledger holds no product (nothing the product query selects) and no
  quality record, \<^verbatim>\<open>getAnalyticsData\<close> returns \<open>totalProducts = 0\<close>,
  \<open>onTimeDeliveryRate = 100\<close>, \<open>qualityScore = 95.0\<close> and empty \<open>categoryStats\<close>.
\<close>

theorem analytics_empty:
  assumes "queryAllProducts l = []" and "getAllQualityRecords l = []"
  shows "\<exists>a. getAnalyticsData l = Inr a \<and> totalProducts a = 0 \<and> onTimeDeliveryRate a = 100
            \<and> qualityScore a = Some 95 \<and> categoryStats a = []"
  using assms by (simp add: getAnalyticsData_def tally0_def)

theorem analytics_empty_witness:
  "\<exists>a. getAnalyticsData [] = Inr a \<and> totalProducts a = 0 \<and> onTimeDeliveryRate a = 100
        \<and> qualityScore a = Some 95 \<and> categoryStats a = []"
proof -
  have q: "queryAllProducts [] = []"
    by (simp add: queryAllProducts_def getQueryResult_exists_def)
  have r: "getAllQualityRecords [] = []"
    by (simp add: getAllQualityRecords_def getQueryResult_exists_def)
  show ?thesis using analytics_empty [OF q r] .
qed

subsection \<open>Creating a product whose id exists\<close>

lemma example_valid: "validateProductData (ProductDoc example_product) = Inr ()"
  by code_simp

lemma example_id: "doc_id (ProductDoc example_product) = Some ''P1''"
  by (simp add: doc_id_def example_product_def)


lemma commit_two: "commit l [(k1, v1), (k2, v2)] = put (put l k1 v1) k2 v2"
  by (simp add: commit_def)

lemma validateProductData_is_product:
  "validateProductData d = Inr u \<Longrightarrow> \<exists>p. d = ProductDoc p"
proof (cases d)
  case (ProductDoc p)
  then show ?thesis by simp
next
  case (QualityDoc q)
  assume "validateProductData d = Inr u"
  then show ?thesis using QualityDoc
    by (cases "requireField (of_string (doc_id d)) ''id''")
       (simp_all add: validateProductData_def requireField_def)
next
  case (NotificationDoc n)
  assume "validateProductData d = Inr u"
  then show ?thesis using NotificationDoc
    by (cases "requireField (of_string (doc_id d)) ''id''")
       (simp_all add: validateProductData_def requireField_def)
qed

text \<open>
  C3, as the code has it. \<^verbatim>\<open>createProduct\<close> validates the payload first and looks the
  id up afterwards. For every payload whose id exists in the ledger the call fails and
  writes nothing: with the AlreadyExists error when the payload passes validation, and
  with the validation error otherwise.
\<close>

theorem create_existing:
  assumes "doc_id d = Some pid" and "productExists l pid"
  shows "(validateProductData d = Inr () \<longrightarrow>
            createProduct rt l (Json d)
              = Inl (AlreadyExists (''The product '' @ pid @ '' already exists.'')))
       \<and> (\<forall>e. validateProductData d = Inl e \<longrightarrow> createProduct rt l (Json d) = Inl e)"
  using assms by (simp add: createProduct_def JSON_parse_def template_def)

theorem create_existing_witness:
  "createProduct example_runtime example_ledger (Json (ProductDoc example_product))
     = Inl (AlreadyExists ''The product P1 already exists.'')
   \<and> createProduct example_runtime example_ledger
        (Json (ProductDoc (example_product\<lparr>barcode := None\<rparr>)))
     = Inl (ValidationError (field_required ''barcode''))"
proof -
  have i: "doc_id (ProductDoc (example_product\<lparr>barcode := None\<rparr>)) = Some ''P1''"
    by (simp add: doc_id_def example_product_def)
  have v: "validateProductData (ProductDoc (example_product\<lparr>barcode := None\<rparr>))
             = Inl (ValidationError (field_required ''barcode''))"
    by code_simp
  show ?thesis
    using create_existing [OF example_id example_exists, of example_runtime]
      create_existing [OF i example_exists, of example_runtime] example_valid v
    by simp
qed

text \<open>The claim as stated fails: a payload with a blank name and the id of a stored product
  is rejected with the validation error, not with AlreadyExists.\<close>

theorem create_existing_counterexample:
  "doc_id (ProductDoc (example_product\<lparr>name := Some '' ''\<rparr>)) = Some ''P1''
   \<and> productExists example_ledger ''P1''
   \<and> createProduct example_runtime example_ledger
        (Json (ProductDoc (example_product\<lparr>name := Some '' ''\<rparr>)))
      = Inl (ValidationError (field_required ''name''))"
  by code_simp

subsection \<open>A failing notification write\<close>

text \<open>
  C7. When the ledger accessor fails the notification write, the failure is caught and
  discarded: whenever the operation succeeds with the notification written, it also
  succeeds with the notification write failing, and its main write (the product or the
  quality record) is its only write, kept as it is. This holds for \<^verbatim>\<open>createProduct\<close>,
  \<^verbatim>\<open>shipProductTo\<close> and \<^verbatim>\<open>addQualityRecord\<close>.
\<close>

theorem notification_failure_discarded:
  assumes "put_fault rt 1"
  shows "(\<forall>ws. createProduct (rt\<lparr>put_fault := (put_fault rt)(1 := False)\<rparr>) l b = Inr ws \<longrightarrow>
            (\<exists>w n. ws = [w, n] \<and> createProduct rt l b = Inr [w]))
       \<and> (\<forall>ws. shipProductTo (rt\<lparr>put_fault := (put_fault rt)(1 := False)\<rparr>) l pid loc t = Inr ws \<longrightarrow>
            (\<exists>w n. ws = [w, n] \<and> shipProductTo rt l pid loc t = Inr [w]))
       \<and> (\<forall>ws. addQualityRecord (rt\<lparr>put_fault := (put_fault rt)(1 := False)\<rparr>) l pid q = Inr ws \<longrightarrow>
            (\<exists>w n. ws = [w, n] \<and> addQualityRecord rt l pid q = Inr [w]))"
proof (intro conjI allI impI)
  fix ws
  assume "createProduct (rt\<lparr>put_fault := (put_fault rt)(1 := False)\<rparr>) l b = Inr ws"
  then show "\<exists>w n. ws = [w, n] \<and> createProduct rt l b = Inr [w]"
    using assms
    by (auto simp: createProduct_def putState_def createNotification_def Let_def
        split: sum.splits if_splits)
next
  fix ws
  assume "shipProductTo (rt\<lparr>put_fault := (put_fault rt)(1 := False)\<rparr>) l pid loc t = Inr ws"
  then show "\<exists>w n. ws = [w, n] \<and> shipProductTo rt l pid loc t = Inr [w]"
    using assms
    by (auto simp: shipProductTo_def putState_def createNotification_def
        split: sum.splits if_splits)
next
  fix ws
  assume "addQualityRecord (rt\<lparr>put_fault := (put_fault rt)(1 := False)\<rparr>) l pid q = Inr ws"
  then show "\<exists>w n. ws = [w, n] \<and> addQualityRecord rt l pid q = Inr [w]"
    using assms
    by (auto simp: addQualityRecord_def putState_def createNotification_def quality_key_def
        split: sum.splits if_splits)
qed

theorem notification_failure_discarded_witness:
  "(\<exists>w. createProduct faulty_runtime [] (Json (ProductDoc example_product)) = Inr [w])
   \<and> (\<exists>w. shipProductTo faulty_runtime example_ledger ''P1'' ''Warehouse A''
             ''2021-06-26T00:00:00.000Z'' = Inr [w])
   \<and> (\<exists>w. addQualityRecord faulty_runtime example_ledger ''P1''
             (Json (QualityDoc example_quality)) = Inr [w])"
proof -
  have f: "put_fault faulty_runtime 1" by (simp add: faulty_runtime_def)
  have "\<not> isl (createProduct (faulty_runtime\<lparr>put_fault := (put_fault faulty_runtime)(1 := False)\<rparr>)
                  [] (Json (ProductDoc example_product)))"
    by code_simp
  then obtain ws1 where a:
    "createProduct (faulty_runtime\<lparr>put_fault := (put_fault faulty_runtime)(1 := False)\<rparr>)
       [] (Json (ProductDoc example_product)) = Inr ws1"
    by (metis sum.collapse(2))
  have "\<not> isl (shipProductTo (faulty_runtime\<lparr>put_fault := (put_fault faulty_runtime)(1 := False)\<rparr>)
                  example_ledger ''P1'' ''Warehouse A'' ''2021-06-26T00:00:00.000Z'')"
    by code_simp
  then obtain ws2 where b:
    "shipProductTo (faulty_runtime\<lparr>put_fault := (put_fault faulty_runtime)(1 := False)\<rparr>)
       example_ledger ''P1'' ''Warehouse A'' ''2021-06-26T00:00:00.000Z'' = Inr ws2"
    by (metis sum.collapse(2))
  have "\<not> isl (addQualityRecord (faulty_runtime\<lparr>put_fault := (put_fault faulty_runtime)(1 := False)\<rparr>)
                  example_ledger ''P1'' (Json (QualityDoc example_quality)))"
    by code_simp
  then obtain ws3 where c:
    "addQualityRecord (faulty_runtime\<lparr>put_fault := (put_fault faulty_runtime)(1 := False)\<rparr>)
       example_ledger ''P1'' (Json (QualityDoc example_quality)) = Inr ws3"
    by (metis sum.collapse(2))
  note t = notification_failure_discarded [OF f]
  from t [where l = "[]" and b = "Json (ProductDoc example_product)"] a
  have 1: "\<exists>w. createProduct faulty_runtime [] (Json (ProductDoc example_product)) = Inr [w]"
    by blast
  from t [where l = example_ledger and pid = "''P1''" and loc = "''Warehouse A''"
      and t = "''2021-06-26T00:00:00.000Z''"] b
  have 2: "\<exists>w. shipProductTo faulty_runtime example_ledger ''P1'' ''Warehouse A''
             ''2021-06-26T00:00:00.000Z'' = Inr [w]"
    by blast
  from t [where l = example_ledger and pid = "''P1''"
      and q = "Json (QualityDoc example_quality)"] c
  have 3: "\<exists>w. addQualityRecord faulty_runtime example_ledger ''P1''
             (Json (QualityDoc example_quality)) = Inr [w]"
    by blast
  from 1 2 3 show ?thesis by blast
qed

subsection \<open>Shipping a product\<close>




lemma createNotification_cases:
  "createNotification rt n x = (if put_fault rt n then [] else [(id_N x, Json (NotificationDoc x))])"
  by (simp add: createNotification_def putState_def JSON_stringify_def)




subsection \<open>Creating and reading a product\<close>




subsection \<open>What the writes depend on\<close>

text \<open>
  C1, as the code has it. The writes of \<^verbatim>\<open>createProduct\<close>, \<^verbatim>\<open>shipProductTo\<close> and
  \<^verbatim>\<open>addQualityRecord\<close> are a function of the arguments, the prior ledger state and
  the clock and random readings of the invocation. The readings decide the id and
  timestamp of the notification and the key of the quality record only: two executions
  with the same arguments and state (and the same accessor faults) fail with the same
  error or both succeed with as many writes, \<^verbatim>\<open>createProduct\<close> and \<^verbatim>\<open>shipProductTo\<close>
  with the same product write, \<^verbatim>\<open>addQualityRecord\<close> with the same record bytes, under
  the same key when the clock reading for the key is the same.
\<close>

theorem main_write_deterministic:
  assumes "put_fault rt1 = put_fault rt2"
  shows "same_main_write (createProduct rt1 l b) (createProduct rt2 l b)
       \<and> same_main_write (shipProductTo rt1 l pid loc t) (shipProductTo rt2 l pid loc t)
       \<and> same_main_value (addQualityRecord rt1 l pid q) (addQualityRecord rt2 l pid q)
       \<and> (now_key rt1 = now_key rt2 \<longrightarrow>
            same_main_write (addQualityRecord rt1 l pid q) (addQualityRecord rt2 l pid q))"
proof (intro conjI impI)
  show "same_main_write (createProduct rt1 l b) (createProduct rt2 l b)"
    using assms
    by (auto simp: same_main_write_def createProduct_def putState_def createNotification_cases
        Let_def split: sum.splits)
  show "same_main_write (shipProductTo rt1 l pid loc t) (shipProductTo rt2 l pid loc t)"
    using assms
    by (auto simp: same_main_write_def shipProductTo_def putState_def createNotification_cases
        split: sum.splits)
  show "same_main_value (addQualityRecord rt1 l pid q) (addQualityRecord rt2 l pid q)"
    using assms
    by (auto simp: same_main_value_def addQualityRecord_def putState_def createNotification_cases
        split: sum.splits)
  show "same_main_write (addQualityRecord rt1 l pid q) (addQualityRecord rt2 l pid q)"
    if "now_key rt1 = now_key rt2"
    using assms that
    by (auto simp: same_main_write_def addQualityRecord_def putState_def createNotification_cases
        quality_key_def split: sum.splits)
qed

theorem main_write_deterministic_witness:
  "same_main_write (createProduct example_runtime [] (Json (ProductDoc example_product)))
                   (createProduct (example_runtime\<lparr>now_id := 1625097600001\<rparr>) [] (Json (ProductDoc example_product)))
   \<and> same_main_write
        (shipProductTo example_runtime example_ledger ''P1'' ''Warehouse A'' ''2021-06-26T00:00:00.000Z'')
        (shipProductTo (example_runtime\<lparr>now_id := 1625097600001\<rparr>) example_ledger ''P1'' ''Warehouse A''
           ''2021-06-26T00:00:00.000Z'')
   \<and> same_main_write
        (addQualityRecord example_runtime example_ledger ''P1'' (Json (QualityDoc example_quality)))
        (addQualityRecord (example_runtime\<lparr>now_id := 1625097600001\<rparr>) example_ledger ''P1''
           (Json (QualityDoc example_quality)))"
proof -
  have f: "put_fault example_runtime = put_fault (example_runtime\<lparr>now_id := 1625097600001\<rparr>)" by simp
  have k: "now_key example_runtime = now_key (example_runtime\<lparr>now_id := 1625097600001\<rparr>)" by simp
  show ?thesis using main_write_deterministic [OF f] k by blast
qed

text \<open>The claim as stated fails: with the same arguments and the same ledger, a later
  clock gives the notification another id and the quality record another key.\<close>

theorem determinism_counterexample:
  "createProduct example_runtime [] (Json (ProductDoc example_product))
     = Inr [(''P1'', Json (ProductDoc example_product)),
            (example_notification_id, Json (NotificationDoc (created_notification ''P1'')))]
   \<and> createProduct later_runtime [] (Json (ProductDoc example_product))
     = Inr [(''P1'', Json (ProductDoc example_product)),
            (''NOTIF_1625097600001_k3j2h1g9a'',
             Json (NotificationDoc ((created_notification ''P1'')\<lparr>id_N := ''NOTIF_1625097600001_k3j2h1g9a''\<rparr>)))]
   \<and> createProduct example_runtime [] (Json (ProductDoc example_product))
     \<noteq> createProduct later_runtime [] (Json (ProductDoc example_product))
   \<and> map fst (projr (addQualityRecord example_runtime example_ledger ''P1''
                       (Json (QualityDoc example_quality))))
     = [''QUALITY_P1_1625097600000'', example_notification_id]
   \<and> map fst (projr (addQualityRecord later_runtime example_ledger ''P1''
                       (Json (QualityDoc example_quality))))
     = [''QUALITY_P1_1625097600001'', ''NOTIF_1625097600001_k3j2h1g9a'']"
  by code_simp

subsection \<open>Notifications among the products\<close>

lemma parse_results_mem: "(k, Json d) \<in> set rs \<Longrightarrow> d \<in> set (parse_results rs)"
  by (induction rs rule: parse_results.induct) (auto simp: JSON_parse_def split: bytes.splits)

lemma queryAllProducts_mem:
  "(k, Json d) \<in> set l \<Longrightarrow> doc_id d \<noteq> None \<Longrightarrow> d \<in> set (queryAllProducts l)"
  unfolding queryAllProducts_def
  by (rule parse_results_mem [of k]) (simp add: getQueryResult_exists_def)

lemma notification_write_last:
  assumes "\<not> put_fault rt 1"
    and "createProduct rt l b = Inr ws \<or> shipProductTo rt l pid loc t = Inr ws
         \<or> addQualityRecord rt l pid q = Inr ws"
  shows "\<exists>w n. ws = [w, (notification_id rt, Json (NotificationDoc n))] \<and> id_N n = notification_id rt"
  using assms
  by (auto simp: createProduct_def shipProductTo_def addQualityRecord_def createNotification_cases
      Let_def split: sum.splits if_splits)

lemma notification_among_products:
  assumes "\<not> put_fault rt 1"
    and "createProduct rt l b = Inr ws \<or> shipProductTo rt l pid loc t = Inr ws
         \<or> addQualityRecord rt l pid q = Inr ws"
  shows "\<exists>n. id_N n = notification_id rt
           \<and> getState (commit l ws) (notification_id rt) = Some (Json (NotificationDoc n))
           \<and> NotificationDoc n \<in> set (queryAllProducts (commit l ws))"
proof -
  obtain w n where ws: "ws = [w, (notification_id rt, Json (NotificationDoc n))]"
    and n: "id_N n = notification_id rt"
    using notification_write_last [OF assms] by blast
  obtain k v where w: "w = (k, v)" by (cases w)
  have c: "commit l ws = put (put l k v) (notification_id rt) (Json (NotificationDoc n))"
    by (simp add: ws w commit_two)
  have "NotificationDoc n \<in> set (queryAllProducts (commit l ws))"
    unfolding c by (rule queryAllProducts_mem [OF put_mem]) (simp add: doc_id_def)
  moreover have "getState (commit l ws) (notification_id rt) = Some (Json (NotificationDoc n))"
    unfolding c by (rule getState_put_same)
  ultimately show ?thesis using n by blast
qed

text \<open>Once a notification is stored, the analytics fail: its document has no
  \<^verbatim>\<open>locationData\<close>.\<close>

lemma tally_products_fails:
  "\<exists>d \<in> set ds. doc_locationData d = None \<Longrightarrow> \<exists>e. tally_products t ds = Inl e"
proof (induction ds arbitrary: t)
  case Nil
  then show ?case by simp
next
  case (Cons d ds)
  show ?case
  proof (cases "tally_product t d")
    case (Inl e)
    then show ?thesis by simp
  next
    case (Inr t')
    then have "doc_locationData d \<noteq> None"
      by (cases "doc_locationData d") (simp_all add: tally_product_def)
    then have "\<exists>d \<in> set ds. doc_locationData d = None" using Cons.prems by auto
    then show ?thesis using Cons.IH [of t'] Inr by simp
  qed
qed

lemma analytics_fails_after_notification:
  assumes "\<not> put_fault rt 1"
    and "createProduct rt l b = Inr ws \<or> shipProductTo rt l pid loc t = Inr ws
         \<or> addQualityRecord rt l pid q = Inr ws"
  shows "\<exists>e. getAnalyticsData (commit l ws) = Inl e"
proof -
  obtain n where "NotificationDoc n \<in> set (queryAllProducts (commit l ws))"
    using notification_among_products [OF assms] by blast
  moreover have "doc_locationData (NotificationDoc n) = None"
    by (simp add: doc_locationData_def)
  ultimately have "\<exists>e. tally_products tally0 (queryAllProducts (commit l ws)) = Inl e"
    by (intro tally_products_fails) blast
  then show ?thesis by (auto simp: getAnalyticsData_def)
qed

text \<open>
  C6. After \<^verbatim>\<open>createProduct\<close> of the example product on an empty ledger, with the
  notification written, \<^verbatim>\<open>queryAllProducts\<close> returns the notification beside the
  product, and \<^verbatim>\<open>getAnalyticsData\<close>, which reads \<^verbatim>\<open>locationData.current\<close> of every
  query result, fails on it with a TypeError instead of counting it.
\<close>

theorem analytics_fails_on_notification:
  "createProduct example_runtime [] (Json (ProductDoc example_product))
     = Inr [(''P1'', Json (ProductDoc example_product)),
            (example_notification_id, Json (NotificationDoc (created_notification ''P1'')))]
   \<and> queryAllProducts
        (commit [] [(''P1'', Json (ProductDoc example_product)),
                    (example_notification_id, Json (NotificationDoc (created_notification ''P1'')))])
     = [NotificationDoc (created_notification ''P1''), ProductDoc example_product]
   \<and> getAnalyticsData
        (commit [] [(''P1'', Json (ProductDoc example_product)),
                    (example_notification_id, Json (NotificationDoc (created_notification ''P1'')))])
     = Inl TypeError"
  by code_simp

subsection \<open>Monthly trends\<close>

text \<open>
  C5. A product made in June 2021 and arrived at its current location in July 2021 adds
  no shipment: the month of its arrival has no bucket, and the loop adds a shipment to
  an existing bucket only. With a second product made in July 2021 the shipment is
  counted when that product comes first in the query result and is not counted when it
  comes second.
\<close>

theorem shipment_month_without_bucket:
  "map_sum id monthlyTrends (getAnalyticsData [(''P1'', Json (ProductDoc july_product))])
     = Inr [\<lparr>month = ''Jun'', products = 1, shipments = 0\<rparr>]
   \<and> map_sum id monthlyTrends
        (getAnalyticsData
          [(''A'', Json (ProductDoc (july_product\<lparr>id_P := Some ''A''\<rparr>))),
           (''B'', Json (ProductDoc (example_product\<lparr>id_P := Some ''B'',
                    productionDate := Some ''2021-07-01T00:00:00.000Z'',
                    expirationDate := Some ''2021-07-02T00:00:00.000Z''\<rparr>)))])
     = Inr [\<lparr>month = ''Jun'', products = 1, shipments = 0\<rparr>,
            \<lparr>month = ''Jul'', products = 1, shipments = 0\<rparr>]
   \<and> map_sum id monthlyTrends
        (getAnalyticsData
          [(''A'', Json (ProductDoc (example_product\<lparr>id_P := Some ''A'',
                    productionDate := Some ''2021-07-01T00:00:00.000Z'',
                    expirationDate := Some ''2021-07-02T00:00:00.000Z''\<rparr>))),
           (''B'', Json (ProductDoc (july_product\<lparr>id_P := Some ''B''\<rparr>)))])
     = Inr [\<lparr>month = ''Jun'', products = 1, shipments = 0\<rparr>,
            \<lparr>month = ''Jul'', products = 1, shipments = 1\<rparr>]"
  by code_simp

subsection \<open>Listing quality records\<close>

























end
